theory Spec2Isabelle
  imports Main
begin

section \<open>Error messages and classified errors\<close>

text \<open>
  Modelled from the spec: \<^verbatim>\<open>shared/errors.generator\<close> is not among the sources. The
  Error Generator produces structured messages parameterised by a resource name; the
  service calls \<^verbatim>\<open>ErrorGenerator.Duplicate\<close>, \<^verbatim>\<open>NotFound\<close>, \<^verbatim>\<open>UnableSave\<close> and
  \<^verbatim>\<open>UnableToDelete\<close>, each with a resource-name literal.
\<close>

datatype message =
    Duplicate string
  | NotFound string
  | UnableSave string
  | UnableToDelete string

fun resource :: "message \<Rightarrow> string" where
  "resource (Duplicate r) = r"
| "resource (NotFound r) = r"
| "resource (UnableSave r) = r"
| "resource (UnableToDelete r) = r"

text \<open>
  Modelled from the spec: \<^verbatim>\<open>shared/errors.messages\<close> is not among the sources. The
  Error Classifier wraps a message into a typed error (\<^verbatim>\<open>BadRequestError\<close>,
  \<^verbatim>\<open>ConflictError\<close>, \<^verbatim>\<open>NotFoundError\<close>); \<^verbatim>\<open>ParseError\<close> produces a generic classified
  error around its fallback message, here \<open>GenericError\<close>.
\<close>

datatype error =
    BadRequestError message
  | ConflictError message
  | NotFoundError message
  | GenericError message

fun message_of :: "error \<Rightarrow> message" where
  "message_of (BadRequestError m) = m"
| "message_of (ConflictError m) = m"
| "message_of (NotFoundError m) = m"
| "message_of (GenericError m) = m"

text \<open>
  What a \<^verbatim>\<open>try\<close> block of the service can throw: a classified error thrown by the
  service itself, the rejection of a schema validation (all violations collected,
  \<^verbatim>\<open>abortEarly: false\<close>), or a failure of the database collaborator.
\<close>

type_synonym db_error = string

datatype failure =
    Classified error
  | ValidationError "string list"
  | DatabaseError db_error

text \<open>
  Modelled from the spec: \<^verbatim>\<open>ParseError(caught, fallbackMsg)\<close> is not among the sources.
  It inspects a caught failure; if it is already a classified error, it rethrows it;
  otherwise it wraps \<^verbatim>\<open>fallbackMsg\<close> into a generic classified error. It never
  swallows: the value below is the error it throws.
\<close>

fun ParseError :: "failure \<Rightarrow> message \<Rightarrow> error" where
  "ParseError (Classified e) fallbackMsg = e"
| "ParseError (ValidationError vs) fallbackMsg = GenericError fallbackMsg"
| "ParseError (DatabaseError d) fallbackMsg = GenericError fallbackMsg"

section \<open>Data model\<close>

text \<open>
  The class \<^verbatim>\<open>Users\<close>: every property is optional. The same partial shape serves as the
  \<^verbatim>\<open>User\<close> entity the database returns and as the \<^verbatim>\<open>UserFilter\<close> \<^verbatim>\<open>{ email }\<close>.
  The constructor is \<^verbatim>\<open>Object.assign(this, payload)\<close>, which copies every property of
  the payload, so an object built from a create payload also carries \<^verbatim>\<open>raw_password\<close>
  although the class does not declare it.
\<close>

record Users =
  u_id :: "string option"
  u_name :: "string option"
  u_email :: "string option"
  u_date_of_birth :: "string option"
  u_role :: "string option"
  u_hashed_password :: "string option"
  u_raw_password :: "string option"

definition no_Users :: Users where
  "no_Users = \<lparr>u_id = None, u_name = None, u_email = None, u_date_of_birth = None,
     u_role = None, u_hashed_password = None, u_raw_password = None\<rparr>"

record UserInputPayload =
  in_name :: string
  in_email :: string
  in_raw_password :: string
  in_role :: "string option"
  in_date_of_birth :: "string option"

text \<open>\<^verbatim>\<open>Users.generate_hashed_password\<close>: the template string \<^verbatim>\<open>`!${raw_password}`\<close>.\<close>

definition generate_hashed_password :: "string \<Rightarrow> string" where
  "generate_hashed_password raw_password = CHR ''!'' # raw_password"

text \<open>
  \<^verbatim>\<open>String.prototype.slice(start, end)\<close> for non-negative indices: both are clamped to
  the length, and the result is empty when \<open>end \<le> start\<close>.
\<close>

definition slice :: "string \<Rightarrow> nat \<Rightarrow> nat \<Rightarrow> string" where
  "slice str start end' =
     (let from = min start (length str); to = min end' (length str)
      in take (to - from) (drop from str))"

text \<open>\<^verbatim>\<open>Users.password\<close>: \<^verbatim>\<open>hashed_password.slice(0, hashed_password.length)\<close>.\<close>

definition password :: "string \<Rightarrow> string" where
  "password hashed_password = slice hashed_password 0 (length hashed_password)"

text \<open>\<^verbatim>\<open>new Users({ ...payload, hashed_password })\<close>.\<close>

definition new_Users :: "UserInputPayload \<Rightarrow> string \<Rightarrow> Users" where
  "new_Users payload hashed_password =
     \<lparr>u_id = None, u_name = Some (in_name payload), u_email = Some (in_email payload),
      u_date_of_birth = in_date_of_birth payload, u_role = in_role payload,
      u_hashed_password = Some hashed_password,
      u_raw_password = Some (in_raw_password payload)\<rparr>"

text \<open>
  The partial Subscription Plan shape (\<^verbatim>\<open>SubscriptionPlans\<close>, \<^verbatim>\<open>SubscriptionPlan\<close>):
  entity, query (\<^verbatim>\<open>{ slug }\<close>, \<^verbatim>\<open>{ id }\<close>) and patch alike.
\<close>

record SubscriptionPlans =
  p_id :: "string option"
  p_name :: "string option"
  p_slug :: "string option"

text \<open>\<^verbatim>\<open>new SubscriptionPlans()\<close>: no property set.\<close>

definition new_SubscriptionPlans :: SubscriptionPlans where
  "new_SubscriptionPlans = \<lparr>p_id = None, p_name = None, p_slug = None\<rparr>"

text \<open>
  Numbers. \<^verbatim>\<open>limit\<close>, \<^verbatim>\<open>skip\<close> and the row counts are whole numbers, held by the code
  as double-precision floating-point numbers: an integer below \<open>2 ^ 53\<close> in magnitude is
  held exactly, a larger one only when it fits 53 significant bits. The sum of two numbers
  is the exact sum rounded to the nearest such number, a tie going to the one with the
  even significand. (A sum beyond the largest finite double is infinite in the code and
  an integer of at least \<open>2 ^ 1024\<close> in magnitude here; compared with a finite number,
  both give the same answer.)
\<close>

fun bit_length :: "nat \<Rightarrow> nat" where
  "bit_length n = (if n = 0 then 0 else Suc (bit_length (n div 2)))"

declare bit_length.simps [simp del]

definition round_to_double :: "int \<Rightarrow> int" where
  "round_to_double n =
     (let a = nat \<bar>n\<bar> in
      if a < 2 ^ 53 then n
      else
        (let q = 2 ^ (bit_length a - 53);
             m = a div q;
             r = a mod q;
             m' = (if q < 2 * r \<or> (2 * r = q \<and> odd m) then m + 1 else m)
         in sgn n * int (m' * q)))"

text \<open>The operator \<^verbatim>\<open>+\<close> on two numbers.\<close>

definition number_add :: "int \<Rightarrow> int \<Rightarrow> int" where
  "number_add a b = round_to_double (a + b)"

text \<open>The \<^verbatim>\<open>where\<close> argument: \<^verbatim>\<open>{ id?, limit?, skip? }\<close>.\<close>

record SubscriptionPlanFilter =
  f_id :: "string option"
  f_limit :: "int option"
  f_skip :: "int option"

record SubscriptionPlanUpdatePayload =
  up_name :: string

record page_info =
  pi_total :: int
  pi_limit :: int
  pi_skip :: int
  pi_has_more :: bool

record SubscriptionPlanResponse =
  r_edges :: "SubscriptionPlans list"
  r_page_info :: page_info

text \<open>\<^verbatim>\<open>{ modified, edges }\<close>, the response of \<^verbatim>\<open>update\<close> and of \<^verbatim>\<open>delete\<close>.\<close>

record ModifiedResponse =
  m_modified :: int
  m_edges :: "SubscriptionPlans list"

section \<open>Collaborators\<close>

text \<open>
  The database service is an external collaborator: the service is parameterised by it.
  Each operation runs on the database state \<open>'s\<close> and either fails or answers, leaving a
  new state. The generic methods are listed at the two entity types they are called at.
\<close>

record 's DatabaseService =
  findOne_User :: "Users \<Rightarrow> 's \<Rightarrow> (db_error + Users option) \<times> 's"
  create_User :: "Users \<Rightarrow> 's \<Rightarrow> (db_error + Users) \<times> 's"
  findOne_Plan :: "SubscriptionPlans \<Rightarrow> 's \<Rightarrow> (db_error + SubscriptionPlans option) \<times> 's"
  findAll_Plan :: "SubscriptionPlans \<Rightarrow> int \<Rightarrow> int \<Rightarrow> 's
                     \<Rightarrow> (db_error + SubscriptionPlans list \<times> int) \<times> 's"
  update_Plan :: "SubscriptionPlans \<Rightarrow> SubscriptionPlans \<Rightarrow> 's
                     \<Rightarrow> (db_error + SubscriptionPlans list \<times> int) \<times> 's"
  delete_Plan :: "SubscriptionPlans \<Rightarrow> 's \<Rightarrow> (db_error + SubscriptionPlans list \<times> int) \<times> 's"

text \<open>
  The schemas the service validates against. A schema answers with the list of violations
  it collected; the empty list means the value is accepted. The update schema validates
  the merged object \<^verbatim>\<open>{ ...payload, ...where }\<close>. The service file names
  \<^verbatim>\<open>subscriptionPlanFilterSchema\<close> and \<^verbatim>\<open>subscriptionPlanUpdateSchema\<close> without
  declaring them, and \<^verbatim>\<open>user.create.yup\<close> is not among the sources: the service is
  parameterised by all three.
\<close>

record Schemas =
  UserCreateSchema :: "UserInputPayload \<Rightarrow> string list"
  subscriptionPlanFilterSchema :: "SubscriptionPlanFilter option \<Rightarrow> string list"
  subscriptionPlanUpdateSchema ::
    "SubscriptionPlanUpdatePayload \<Rightarrow> SubscriptionPlanFilter option \<Rightarrow> string list"

section \<open>Lodash and string helpers\<close>

text \<open>\<^verbatim>\<open>_.isEmpty\<close> on an optional string: \<^verbatim>\<open>undefined\<close> and \<^verbatim>\<open>''\<close> are empty.\<close>

fun isEmpty_string :: "string option \<Rightarrow> bool" where
  "isEmpty_string None = True"
| "isEmpty_string (Some str) = (str = [])"

text \<open>\<^verbatim>\<open>_.isEmpty\<close> on an object: empty when it has no property.\<close>

definition isEmpty_Plan :: "SubscriptionPlans \<Rightarrow> bool" where
  "isEmpty_Plan edge \<longleftrightarrow> p_id edge = None \<and> p_name edge = None \<and> p_slug edge = None"

text \<open>
  \<^verbatim>\<open>String.prototype.toLowerCase\<close>. A string is the list of its characters, the ASCII
  characters being those below 128; a string with other characters is held in an encoding
  that keeps every ASCII character as it is (such as UTF-8). On a string of ASCII
  characters the conversion replaces each of the letters \<^verbatim>\<open>A\<close> to \<^verbatim>\<open>Z\<close> by its small
  letter and leaves the rest. On any other string the result is given by the case
  mapping of the Unicode tables of the language runtime, which are not part of the
  sources: the conversion takes it as the parameter \<open>unicode\<close>.
\<close>

definition is_ascii :: "string \<Rightarrow> bool" where
  "is_ascii str = list_all (\<lambda>c. (of_char c :: nat) < 128) str"

definition ascii_lower :: "char \<Rightarrow> char" where
  "ascii_lower c =
     (let n = (of_char c :: nat) in if 65 \<le> n \<and> n \<le> 90 then char_of (n + 32) else c)"

definition toLowerCase :: "(string \<Rightarrow> string) \<Rightarrow> string \<Rightarrow> string" where
  "toLowerCase unicode str = (if is_ascii str then map ascii_lower str else unicode str)"

text \<open>
  \<^verbatim>\<open>String.prototype.replace(pattern, replacement)\<close> with a one-character string
  pattern: only the first occurrence is replaced.
\<close>

fun replace :: "string \<Rightarrow> char \<Rightarrow> string \<Rightarrow> string" where
  "replace [] pat rep = []"
| "replace (c # cs) pat rep = (if c = pat then rep @ cs else c # replace cs pat rep)"

section \<open>UserService\<close>

subsection \<open>create\<close>

text \<open>The \<^verbatim>\<open>try\<close> block of \<^verbatim>\<open>create\<close>; its value is the local \<^verbatim>\<open>result\<close>.\<close>

definition create_try ::
  "Schemas \<Rightarrow> 's DatabaseService \<Rightarrow> UserInputPayload \<Rightarrow> 's \<Rightarrow> (failure + Users) \<times> 's" where
  "create_try schemas dbService payload s =
     (case UserCreateSchema schemas payload of
        v # vs \<Rightarrow> (Inl (ValidationError (v # vs)), s)
      | [] \<Rightarrow>
         (let email = in_email payload in
          case findOne_User dbService (no_Users\<lparr>u_email := Some email\<rparr>) s of
            (Inl d, s1) \<Rightarrow> (Inl (DatabaseError d), s1)
          | (Inr (Some isExist), s1) \<Rightarrow>
              (Inl (Classified (ConflictError (Duplicate ''User''))), s1)
          | (Inr None, s1) \<Rightarrow>
              (let hashed_password = generate_hashed_password (in_raw_password payload) in
               case create_User dbService (new_Users payload hashed_password) s1 of
                 (Inl d, s2) \<Rightarrow> (Inl (DatabaseError d), s2)
               | (Inr result, s2) \<Rightarrow> (Inr result, s2))))"

definition create ::
  "Schemas \<Rightarrow> 's DatabaseService \<Rightarrow> UserInputPayload \<Rightarrow> 's \<Rightarrow> (error + Users) \<times> 's" where
  "create schemas dbService payload s =
     (case create_try schemas dbService payload s of
        (Inl e, s') \<Rightarrow> (Inl (ParseError e (Duplicate ''User'')), s')
      | (Inr result, s') \<Rightarrow>
          (if \<not> isEmpty_string (u_id result) then (Inr result, s')
           else (Inl (BadRequestError (UnableSave ''User'')), s')))"

subsection \<open>findOne\<close>

text \<open>The \<^verbatim>\<open>try\<close> block of \<^verbatim>\<open>findOne\<close>; its value is the local \<^verbatim>\<open>edge\<close>.\<close>

definition findOne_try ::
  "Schemas \<Rightarrow> 's DatabaseService \<Rightarrow> SubscriptionPlanFilter option \<Rightarrow> 's
     \<Rightarrow> (failure + SubscriptionPlans option) \<times> 's" where
  "findOne_try schemas dbService where' s =
     (case subscriptionPlanFilterSchema schemas where' of
        v # vs \<Rightarrow> (Inl (ValidationError (v # vs)), s)
      | [] \<Rightarrow>
         (case (case where' of None \<Rightarrow> None | Some w \<Rightarrow> f_id w) of
            None \<Rightarrow> (Inr None, s)
          | Some id' \<Rightarrow>
             (case findOne_Plan dbService (new_SubscriptionPlans\<lparr>p_id := Some id'\<rparr>) s of
                (Inl d, s1) \<Rightarrow> (Inl (DatabaseError d), s1)
              | (Inr edge, s1) \<Rightarrow> (Inr edge, s1))))"

definition findOne ::
  "Schemas \<Rightarrow> 's DatabaseService \<Rightarrow> SubscriptionPlanFilter option \<Rightarrow> 's
     \<Rightarrow> (error + SubscriptionPlans) \<times> 's" where
  "findOne schemas dbService where' s =
     (case findOne_try schemas dbService where' s of
        (Inl e, s') \<Rightarrow> (Inl (ParseError e (NotFound ''Subscription Plan'')), s')
      | (Inr None, s') \<Rightarrow> (Inl (NotFoundError (NotFound ''Subscription Plan'')), s')
      | (Inr (Some edge), s') \<Rightarrow>
          (if \<not> isEmpty_Plan edge then (Inr edge, s')
           else (Inl (NotFoundError (NotFound ''Subscription Plan'')), s')))"

subsection \<open>findAll\<close>

text \<open>
  The locals of \<^verbatim>\<open>findAll\<close> after its \<^verbatim>\<open>try\<close> block: \<^verbatim>\<open>[edges, count]\<close> (assigned
  together, or both still \<^verbatim>\<open>undefined\<close>), \<^verbatim>\<open>recordLimit\<close> and \<^verbatim>\<open>recordSkip\<close>.
\<close>

record findAll_locals =
  loaded :: "(SubscriptionPlans list \<times> int) option"
  recordLimit :: int
  recordSkip :: int

definition findAll_query ::
  "'s DatabaseService \<Rightarrow> SubscriptionPlans \<Rightarrow> int \<Rightarrow> int \<Rightarrow> 's
     \<Rightarrow> (failure + findAll_locals) \<times> 's" where
  "findAll_query dbService q lim skp s =
     (case findAll_Plan dbService q lim skp s of
        (Inl d, s1) \<Rightarrow> (Inl (DatabaseError d), s1)
      | (Inr (edges, count), s1) \<Rightarrow>
          (Inr \<lparr>loaded = Some (edges, count), recordLimit = lim, recordSkip = skp\<rparr>, s1))"

definition findAll_try ::
  "Schemas \<Rightarrow> 's DatabaseService \<Rightarrow> SubscriptionPlanFilter option \<Rightarrow> 's
     \<Rightarrow> (failure + findAll_locals) \<times> 's" where
  "findAll_try schemas dbService where' s =
     (case subscriptionPlanFilterSchema schemas where' of
        v # vs \<Rightarrow> (Inl (ValidationError (v # vs)), s)
      | [] \<Rightarrow>
         (case where' of
            Some w \<Rightarrow>
              (case (f_id w, f_limit w, f_skip w) of
                 (Some id', Some limit, Some skip) \<Rightarrow>
                   findAll_query dbService (new_SubscriptionPlans\<lparr>p_id := Some id'\<rparr>) limit skip s
               | (None, Some limit, Some skip) \<Rightarrow>
                   findAll_query dbService new_SubscriptionPlans limit skip s
               | (Some id', _, _) \<Rightarrow>
                   findAll_query dbService (new_SubscriptionPlans\<lparr>p_id := Some id'\<rparr>) 10 0 s
               | (None, _, _) \<Rightarrow>
                   (Inr \<lparr>loaded = None, recordLimit = 10, recordSkip = 0\<rparr>, s))
          | None \<Rightarrow> findAll_query dbService new_SubscriptionPlans 10 0 s))"

definition findAll ::
  "Schemas \<Rightarrow> 's DatabaseService \<Rightarrow> SubscriptionPlanFilter option \<Rightarrow> 's
     \<Rightarrow> (error + SubscriptionPlanResponse) \<times> 's" where
  "findAll schemas dbService where' s =
     (case findAll_try schemas dbService where' s of
        (Inl e, s') \<Rightarrow> (Inl (ParseError e (NotFound ''Subscription Plan'')), s')
      | (Inr locals, s') \<Rightarrow>
          (case loaded locals of
             Some (e # es, count) \<Rightarrow>
               (Inr \<lparr>r_edges = e # es,
                     r_page_info = \<lparr>pi_total = count, pi_limit = recordLimit locals,
                       pi_skip = recordSkip locals,
                       pi_has_more =
                         (if count > number_add (recordLimit locals) (recordSkip locals)
                          then True else False)\<rparr>\<rparr>, s')
           | _ \<Rightarrow> (Inl (NotFoundError (NotFound ''Subscription Plan'')), s')))"

subsection \<open>update\<close>

text \<open>
  The \<^verbatim>\<open>try\<close> block of \<^verbatim>\<open>update\<close>; its value is \<^verbatim>\<open>[edges, modified]\<close>, assigned
  together or both still \<^verbatim>\<open>undefined\<close>. The parameter \<open>unicode\<close> is the one of
  \<open>toLowerCase\<close>.
\<close>

definition update_try ::
  "Schemas \<Rightarrow> (string \<Rightarrow> string) \<Rightarrow> 's DatabaseService \<Rightarrow> SubscriptionPlanUpdatePayload
     \<Rightarrow> SubscriptionPlanFilter option \<Rightarrow> 's
     \<Rightarrow> (failure + (SubscriptionPlans list \<times> int) option) \<times> 's" where
  "update_try schemas unicode dbService payload where' s =
     (case subscriptionPlanUpdateSchema schemas payload where' of
        v # vs \<Rightarrow> (Inl (ValidationError (v # vs)), s)
      | [] \<Rightarrow>
         (case where' of
            None \<Rightarrow> (Inr None, s)
          | Some w \<Rightarrow>
             (case f_id w of
                None \<Rightarrow> (Inr None, s)
              | Some id' \<Rightarrow>
                 (let slug = replace (toLowerCase unicode (up_name payload)) CHR '' '' ''-'' in
                  case findOne_Plan dbService (new_SubscriptionPlans\<lparr>p_slug := Some slug\<rparr>) s of
                    (Inl d, s1) \<Rightarrow> (Inl (DatabaseError d), s1)
                  | (Inr isExist, s1) \<Rightarrow>
                     (if (case isExist of None \<Rightarrow> False | Some ex \<Rightarrow> p_id ex \<noteq> Some id')
                      then (Inl (Classified (ConflictError (Duplicate ''Subscription Plan''))), s1)
                      else
                        (case update_Plan dbService
                                \<lparr>p_id = None, p_name = Some (up_name payload), p_slug = Some slug\<rparr>
                                (new_SubscriptionPlans\<lparr>p_id := Some id'\<rparr>) s1 of
                           (Inl d, s2) \<Rightarrow> (Inl (DatabaseError d), s2)
                         | (Inr (edges, modified), s2) \<Rightarrow> (Inr (Some (edges, modified)), s2)))))))"

text \<open>
  The tail shared in shape by \<^verbatim>\<open>update\<close> and \<^verbatim>\<open>delete\<close>: \<^verbatim>\<open>modified > 0\<close> is false
  while \<^verbatim>\<open>modified\<close> is \<^verbatim>\<open>undefined\<close>.
\<close>

definition modified_or_NotFound ::
  "(SubscriptionPlans list \<times> int) option \<Rightarrow> error + ModifiedResponse" where
  "modified_or_NotFound locals =
     (case locals of
        Some (edges, modified) \<Rightarrow>
          (if modified > 0 then Inr \<lparr>m_modified = modified, m_edges = edges\<rparr>
           else Inl (NotFoundError (NotFound ''Subscription Plan'')))
      | None \<Rightarrow> Inl (NotFoundError (NotFound ''Subscription Plan'')))"

definition update ::
  "Schemas \<Rightarrow> (string \<Rightarrow> string) \<Rightarrow> 's DatabaseService \<Rightarrow> SubscriptionPlanUpdatePayload
     \<Rightarrow> SubscriptionPlanFilter option \<Rightarrow> 's \<Rightarrow> (error + ModifiedResponse) \<times> 's" where
  "update schemas unicode dbService payload where' s =
     (case update_try schemas unicode dbService payload where' s of
        (Inl e, s') \<Rightarrow> (Inl (ParseError e (Duplicate ''Subscription Plan'')), s')
      | (Inr locals, s') \<Rightarrow> (modified_or_NotFound locals, s'))"

subsection \<open>delete\<close>

definition delete_try ::
  "Schemas \<Rightarrow> 's DatabaseService \<Rightarrow> SubscriptionPlanFilter option \<Rightarrow> 's
     \<Rightarrow> (failure + (SubscriptionPlans list \<times> int) option) \<times> 's" where
  "delete_try schemas dbService where' s =
     (case subscriptionPlanFilterSchema schemas where' of
        v # vs \<Rightarrow> (Inl (ValidationError (v # vs)), s)
      | [] \<Rightarrow>
         (case where' of
            None \<Rightarrow> (Inr None, s)
          | Some w \<Rightarrow>
             (case f_id w of
                None \<Rightarrow> (Inr None, s)
              | Some id' \<Rightarrow>
                 (case delete_Plan dbService (new_SubscriptionPlans\<lparr>p_id := Some id'\<rparr>) s of
                    (Inl d, s1) \<Rightarrow> (Inl (DatabaseError d), s1)
                  | (Inr (edges, modified), s1) \<Rightarrow> (Inr (Some (edges, modified)), s1)))))"

definition delete ::
  "Schemas \<Rightarrow> 's DatabaseService \<Rightarrow> SubscriptionPlanFilter option \<Rightarrow> 's
     \<Rightarrow> (error + ModifiedResponse) \<times> 's" where
  "delete schemas dbService where' s =
     (case delete_try schemas dbService where' s of
        (Inl e, s') \<Rightarrow> (Inl (ParseError e (UnableToDelete ''Subscription Plan'')), s')
      | (Inr locals, s') \<Rightarrow> (modified_or_NotFound locals, s'))"

section \<open>An in-memory database and permissive schemas\<close>

text \<open>
  Modelled from the spec: the \<^verbatim>\<open>DatabaseService\<close> collaborator is not among the sources.
  This is an in-memory store with the collaborator's contract (\<^verbatim>\<open>findOne\<close> answers with a
  record or nothing, \<^verbatim>\<open>findAll\<close> with a page and the total count, \<^verbatim>\<open>create\<close> with the
  stored record carrying its assigned id, \<^verbatim>\<open>update\<close> and \<^verbatim>\<open>delete\<close> with the affected
  records and their number). It serves to run the service on concrete inputs; a property
  of the service is stated for every database service.
\<close>

record mem_state =
  mem_users :: "Users list"
  mem_plans :: "SubscriptionPlans list"

definition field_matches :: "'a option \<Rightarrow> 'a option \<Rightarrow> bool" where
  "field_matches q v \<longleftrightarrow> (case q of None \<Rightarrow> True | Some x \<Rightarrow> v = Some x)"

definition matches_User :: "Users \<Rightarrow> Users \<Rightarrow> bool" where
  "matches_User q r \<longleftrightarrow>
     field_matches (u_id q) (u_id r) \<and> field_matches (u_name q) (u_name r) \<and>
     field_matches (u_email q) (u_email r)"

definition matches_Plan :: "SubscriptionPlans \<Rightarrow> SubscriptionPlans \<Rightarrow> bool" where
  "matches_Plan q r \<longleftrightarrow>
     field_matches (p_id q) (p_id r) \<and> field_matches (p_name q) (p_name r) \<and>
     field_matches (p_slug q) (p_slug r)"

definition patch_Plan :: "SubscriptionPlans \<Rightarrow> SubscriptionPlans \<Rightarrow> SubscriptionPlans" where
  "patch_Plan patch r =
     \<lparr>p_id = (case p_id patch of None \<Rightarrow> p_id r | Some x \<Rightarrow> Some x),
      p_name = (case p_name patch of None \<Rightarrow> p_name r | Some x \<Rightarrow> Some x),
      p_slug = (case p_slug patch of None \<Rightarrow> p_slug r | Some x \<Rightarrow> Some x)\<rparr>"

definition mem_db :: "mem_state DatabaseService" where
  "mem_db =
     \<lparr>findOne_User = (\<lambda>q s. (Inr (find (matches_User q) (mem_users s)), s)),
      create_User = (\<lambda>u s.
         (let r = u\<lparr>u_id := Some (replicate (Suc (length (mem_users s))) CHR ''u'')\<rparr>
          in (Inr r, s\<lparr>mem_users := mem_users s @ [r]\<rparr>))),
      findOne_Plan = (\<lambda>q s. (Inr (find (matches_Plan q) (mem_plans s)), s)),
      findAll_Plan = (\<lambda>q lim skp s.
         (let ms = filter (matches_Plan q) (mem_plans s)
          in (Inr (take (nat lim) (drop (nat skp) ms), int (length ms)), s))),
      update_Plan = (\<lambda>patch q s.
         (let ms = filter (matches_Plan q) (mem_plans s)
          in (Inr (map (patch_Plan patch) ms, int (length ms)),
              s\<lparr>mem_plans :=
                   map (\<lambda>r. if matches_Plan q r then patch_Plan patch r else r) (mem_plans s)\<rparr>))),
      delete_Plan = (\<lambda>q s.
         (let ms = filter (matches_Plan q) (mem_plans s)
          in (Inr (ms, int (length ms)),
              s\<lparr>mem_plans := filter (\<lambda>r. \<not> matches_Plan q r) (mem_plans s)\<rparr>)))\<rparr>"

text \<open>Schemas that accept every value, and schemas that reject every value.\<close>

definition accepting :: Schemas where
  "accepting =
     \<lparr>UserCreateSchema = (\<lambda>payload. []),
      subscriptionPlanFilterSchema = (\<lambda>where'. []),
      subscriptionPlanUpdateSchema = (\<lambda>payload where'. [])\<rparr>"

definition rejecting :: Schemas where
  "rejecting =
     \<lparr>UserCreateSchema = (\<lambda>payload. [''invalid'']),
      subscriptionPlanFilterSchema = (\<lambda>where'. [''invalid'']),
      subscriptionPlanUpdateSchema = (\<lambda>payload where'. [''invalid''])\<rparr>"

text \<open>Sample data.\<close>

definition pro_plan :: SubscriptionPlans where
  "pro_plan = \<lparr>p_id = Some ''1'', p_name = Some ''Pro Plan'', p_slug = Some ''pro-plan''\<rparr>"

definition basic_plan :: SubscriptionPlans where
  "basic_plan = \<lparr>p_id = Some ''2'', p_name = Some ''Basic'', p_slug = Some ''basic''\<rparr>"

definition ann :: UserInputPayload where
  "ann = \<lparr>in_name = ''Ann Lee'', in_email = ''ann@ex.com'', in_raw_password = ''secret1'',
          in_role = None, in_date_of_birth = None\<rparr>"

definition empty_store :: mem_state where
  "empty_store = \<lparr>mem_users = [], mem_plans = []\<rparr>"

definition two_plans :: mem_state where
  "two_plans = \<lparr>mem_users = [], mem_plans = [pro_plan, basic_plan]\<rparr>"

text \<open>
  A database service that stores a record without assigning it an id.
\<close>

definition idless_db :: "mem_state DatabaseService" where
  "idless_db = mem_db\<lparr>create_User := (\<lambda>u s. (Inr u, s\<lparr>mem_users := mem_users s @ [u]\<rparr>))\<rparr>"

definition ann_stored :: Users where
  "ann_stored = \<lparr>u_id = Some ''u'', u_name = Some ''Ann Lee'', u_email = Some ''ann@ex.com'',
     u_date_of_birth = None, u_role = None, u_hashed_password = Some ''!secret1'',
     u_raw_password = Some ''secret1''\<rparr>"

definition ann_store :: mem_state where
  "ann_store = \<lparr>mem_users = [ann_stored], mem_plans = []\<rparr>"

text \<open>
  A case mapping for the sample data, which are ASCII strings: it is never consulted.
\<close>

definition no_unicode :: "string \<Rightarrow> string" where
  "no_unicode str = str"

text \<open>A store in which two plans share a slug.\<close>

definition pro_twin :: SubscriptionPlans where
  "pro_twin = \<lparr>p_id = Some ''2'', p_name = Some ''Pro plan'', p_slug = Some ''pro-plan''\<rparr>"

definition twin_plans :: mem_state where
  "twin_plans = \<lparr>mem_users = [], mem_plans = [pro_plan, pro_twin]\<rparr>"


section \<open>Auxiliary facts\<close>

lemma slice_whole: "slice str 0 (length str) = str"
  by (simp add: slice_def)

lemma replace_first_only:
  "replace str pat rep =
     (if pat \<in> set str
      then takeWhile (\<lambda>c. c \<noteq> pat) str @ rep @ tl (dropWhile (\<lambda>c. c \<noteq> pat) str)
      else str)"
  by (induction str) auto


lemma findAll_query_Inl:
  "findAll_query db q lim skp s = (Inl e, s') \<Longrightarrow> \<exists>d. e = DatabaseError d"
  by (auto simp: findAll_query_def split: prod.splits sum.splits)

lemma findAll_try_Inl:
  "findAll_try schemas db w s = (Inl e, s') \<Longrightarrow>
     (\<exists>vs. e = ValidationError vs) \<or> (\<exists>d. e = DatabaseError d)"
  by (auto simp: findAll_try_def split: list.splits option.splits dest: findAll_query_Inl)



lemma ParseError_resource:
  "(\<exists>vs. e = ValidationError vs) \<or> (\<exists>d. e = DatabaseError d) \<or>
   (\<exists>c. e = Classified c \<and> resource (message_of c) = resource m)
   \<Longrightarrow> resource (message_of (ParseError e m)) = resource m"
  by auto

lemma modified_or_NotFound_resource:
  "modified_or_NotFound locals = Inl e \<Longrightarrow> resource (message_of e) = ''Subscription Plan''"
  by (auto simp: modified_or_NotFound_def split: option.splits if_splits)


lemma create_try_Inl:
  "create_try schemas db payload s = (Inl e, s') \<Longrightarrow>
     (\<exists>vs. e = ValidationError vs) \<or> (\<exists>d. e = DatabaseError d) \<or>
     e = Classified (ConflictError (Duplicate ''User''))"
  by (auto simp: create_try_def Let_def split: list.splits prod.splits sum.splits option.splits)

lemma create_try_Inr:
  "create_try schemas db payload s = (Inr result, s') \<Longrightarrow>
     \<exists>s1. create_User db (new_Users payload (generate_hashed_password (in_raw_password payload))) s1
            = (Inr result, s')"
  by (auto simp: create_try_def Let_def split: list.splits prod.splits sum.splits option.splits)

lemma findOne_try_Inl:
  "findOne_try schemas db w s = (Inl e, s') \<Longrightarrow>
     (\<exists>vs. e = ValidationError vs) \<or> (\<exists>d. e = DatabaseError d)"
  by (auto simp: findOne_try_def split: list.splits prod.splits sum.splits option.splits)

lemma update_try_Inl:
  "update_try schemas unicode db payload w s = (Inl e, s') \<Longrightarrow>
     (\<exists>vs. e = ValidationError vs) \<or> (\<exists>d. e = DatabaseError d) \<or>
     e = Classified (ConflictError (Duplicate ''Subscription Plan''))"
  by (auto simp: update_try_def Let_def
           split: list.splits prod.splits sum.splits option.splits if_splits)


lemma delete_try_Inl:
  "delete_try schemas db w s = (Inl e, s') \<Longrightarrow>
     (\<exists>vs. e = ValidationError vs) \<or> (\<exists>d. e = DatabaseError d)"
  by (auto simp: delete_try_def split: list.splits prod.splits sum.splits option.splits)


lemma findOne_error_resource:
  "findOne schemas db w s = (Inl e, s') \<Longrightarrow> resource (message_of e) = ''Subscription Plan''"
  by (auto simp: findOne_def split: prod.splits sum.splits option.splits if_splits
           dest!: findOne_try_Inl)

lemma findAll_error_resource:
  "findAll schemas db w s = (Inl e, s') \<Longrightarrow> resource (message_of e) = ''Subscription Plan''"
  by (auto simp: findAll_def split: prod.splits sum.splits option.splits list.splits
           dest!: findAll_try_Inl)

lemma update_error_resource:
  "update schemas unicode db payload w s = (Inl e, s') \<Longrightarrow>
     resource (message_of e) = ''Subscription Plan''"
  by (auto simp: update_def split: prod.splits sum.splits
           dest!: update_try_Inl modified_or_NotFound_resource)

lemma delete_error_resource:
  "delete schemas db w s = (Inl e, s') \<Longrightarrow> resource (message_of e) = ''Subscription Plan''"
  by (auto simp: delete_def split: prod.splits sum.splits
           dest!: delete_try_Inl modified_or_NotFound_resource)

lemma create_error_resource:
  "create schemas db payload s = (Inl e, s') \<Longrightarrow> resource (message_of e) = ''User''"
  by (auto simp: create_def split: prod.splits sum.splits if_splits dest!: create_try_Inl)


lemma findOne_error_message:
  "findOne schemas db w s = (Inl e, s') \<Longrightarrow> message_of e = NotFound ''Subscription Plan''"
  by (auto simp: findOne_def split: prod.splits sum.splits option.splits if_splits
           dest!: findOne_try_Inl)






lemma ascii_lower_enum:
  "\<forall>c\<in>set (Enum.enum :: char list).
     ascii_lower c =
       (case map_of (zip ''ABCDEFGHIJKLMNOPQRSTUVWXYZ'' ''abcdefghijklmnopqrstuvwxyz'') c of
          None \<Rightarrow> c | Some l \<Rightarrow> l)"
  by code_simp

lemma ascii_lower_table:
  "ascii_lower c =
     (case map_of (zip ''ABCDEFGHIJKLMNOPQRSTUVWXYZ'' ''abcdefghijklmnopqrstuvwxyz'') c of
        None \<Rightarrow> c | Some l \<Rightarrow> l)"
  using ascii_lower_enum by (simp add: enum_UNIV)

lemma toLowerCase_table:
  "toLowerCase unicode str =
     (if list_all (\<lambda>c. (of_char c :: nat) < 128) str
      then map (\<lambda>c. case map_of (zip ''ABCDEFGHIJKLMNOPQRSTUVWXYZ''
                                       ''abcdefghijklmnopqrstuvwxyz'') c of
                       None \<Rightarrow> c | Some l \<Rightarrow> l) str
      else unicode str)"
proof -
  have "map ascii_lower str =
          map (\<lambda>c. case map_of (zip ''ABCDEFGHIJKLMNOPQRSTUVWXYZ''
                                     ''abcdefghijklmnopqrstuvwxyz'') c of
                     None \<Rightarrow> c | Some l \<Rightarrow> l) str"
    by (rule map_cong [OF refl]) (rule ascii_lower_table)
  then show ?thesis
    by (simp only: toLowerCase_def is_ascii_def)
qed


section \<open>Claims\<close>

text \<open>
  C1. The claim: a \<^verbatim>\<open>findAll\<close> call whose filter is present but has none of the
  supported shapes (for example \<^verbatim>\<open>limit\<close> without \<^verbatim>\<open>skip\<close>) loads all records with the
  default pagination. The \<^verbatim>\<open>if\<close>/\<^verbatim>\<open>else if\<close> chain under \<^verbatim>\<open>if (where)\<close> has no final
  \<^verbatim>\<open>else\<close>: for such a filter no query is issued, \<^verbatim>\<open>edges\<close> stays \<^verbatim>\<open>undefined\<close>, and the
  call fails with NotFound. Here a store holds two plans, and the filter
  \<^verbatim>\<open>{ limit: 5 }\<close> is answered with NotFound, the store untouched.
\<close>

theorem findAll_limit_without_skip_NotFound:
  "findAll accepting mem_db (Some \<lparr>f_id = None, f_limit = Some 5, f_skip = None\<rparr>) two_plans
     = (Inl (NotFoundError (NotFound ''Subscription Plan'')), two_plans)"
  by (simp add: findAll_def findAll_try_def accepting_def)


text \<open>
  In general: with no \<^verbatim>\<open>id\<close>, and \<^verbatim>\<open>limit\<close> or \<^verbatim>\<open>skip\<close> missing, an accepted filter is
  answered with NotFound without any query, whatever the database holds.
\<close>

lemma findAll_unsupported_shape:
  assumes "subscriptionPlanFilterSchema schemas (Some w) = []"
    and "f_id w = None"
    and "f_limit w = None \<or> f_skip w = None"
  shows "findAll schemas db (Some w) s
           = (Inl (NotFoundError (NotFound ''Subscription Plan'')), s)"
  using assms by (auto simp: findAll_def findAll_try_def split: option.splits)

text \<open>
  C2. Every error thrown by \<^verbatim>\<open>findOne\<close>, \<^verbatim>\<open>findAll\<close>, \<^verbatim>\<open>update\<close> and \<^verbatim>\<open>delete\<close> carries a
  message generated for the resource \<^verbatim>\<open>'Subscription Plan'\<close>, never \<^verbatim>\<open>'User'\<close>; the errors
  of \<^verbatim>\<open>create\<close> carry a message generated for \<^verbatim>\<open>'User'\<close>.
\<close>

theorem errors_name_Subscription_Plan:
  "(findOne schemas db w s = (Inl e1, s1) \<longrightarrow>
      resource (message_of e1) = ''Subscription Plan'' \<and> resource (message_of e1) \<noteq> ''User'') \<and>
   (findAll schemas db w s = (Inl e2, s2) \<longrightarrow>
      resource (message_of e2) = ''Subscription Plan'' \<and> resource (message_of e2) \<noteq> ''User'') \<and>
   (update schemas unicode db payload w s = (Inl e3, s3) \<longrightarrow>
      resource (message_of e3) = ''Subscription Plan'' \<and> resource (message_of e3) \<noteq> ''User'') \<and>
   (delete schemas db w s = (Inl e4, s4) \<longrightarrow>
      resource (message_of e4) = ''Subscription Plan'' \<and> resource (message_of e4) \<noteq> ''User'') \<and>
   (create schemas db user s = (Inl e5, s5) \<longrightarrow> resource (message_of e5) = ''User'')"
proof -
  have "findOne schemas db w s = (Inl e1, s1) \<Longrightarrow>
          resource (message_of e1) = ''Subscription Plan''"
    by (rule findOne_error_resource)
  moreover have "findAll schemas db w s = (Inl e2, s2) \<Longrightarrow>
          resource (message_of e2) = ''Subscription Plan''"
    by (rule findAll_error_resource)
  moreover have "update schemas unicode db payload w s = (Inl e3, s3) \<Longrightarrow>
          resource (message_of e3) = ''Subscription Plan''"
    by (rule update_error_resource)
  moreover have "delete schemas db w s = (Inl e4, s4) \<Longrightarrow>
          resource (message_of e4) = ''Subscription Plan''"
    by (rule delete_error_resource)
  moreover have "create schemas db user s = (Inl e5, s5) \<Longrightarrow>
          resource (message_of e5) = ''User''"
    by (rule create_error_resource)
  ultimately show ?thesis by simp
qed

text \<open>
  With schemas that reject every value, each method fails through \<^verbatim>\<open>ParseError\<close> with
  the fallback message of its own \<^verbatim>\<open>catch\<close> block.
\<close>

theorem errors_name_Subscription_Plan_witness:
  "findOne rejecting mem_db None empty_store
     = (Inl (GenericError (NotFound ''Subscription Plan'')), empty_store) \<and>
   findAll rejecting mem_db None empty_store
     = (Inl (GenericError (NotFound ''Subscription Plan'')), empty_store) \<and>
   update rejecting no_unicode mem_db \<lparr>up_name = ''Pro Plan''\<rparr> None empty_store
     = (Inl (GenericError (Duplicate ''Subscription Plan'')), empty_store) \<and>
   delete rejecting mem_db None empty_store
     = (Inl (GenericError (UnableToDelete ''Subscription Plan'')), empty_store) \<and>
   create rejecting mem_db ann empty_store
     = (Inl (GenericError (Duplicate ''User'')), empty_store) \<and>
   resource (message_of (GenericError (NotFound ''Subscription Plan''))) = ''Subscription Plan'' \<and>
   resource (message_of (GenericError (Duplicate ''Subscription Plan''))) = ''Subscription Plan'' \<and>
   resource (message_of (GenericError (UnableToDelete ''Subscription Plan'')))
     = ''Subscription Plan'' \<and>
   resource (message_of (GenericError (Duplicate ''User''))) = ''User''"
proof -
  have f1: "findOne rejecting mem_db None empty_store
     = (Inl (GenericError (NotFound ''Subscription Plan'')), empty_store)"
    by (simp add: findOne_def findOne_try_def rejecting_def)
  have f2: "findAll rejecting mem_db None empty_store
     = (Inl (GenericError (NotFound ''Subscription Plan'')), empty_store)"
    by (simp add: findAll_def findAll_try_def rejecting_def)
  have f3: "update rejecting no_unicode mem_db \<lparr>up_name = ''Pro Plan''\<rparr> None empty_store
     = (Inl (GenericError (Duplicate ''Subscription Plan'')), empty_store)"
    by (simp add: update_def update_try_def rejecting_def)
  have f4: "delete rejecting mem_db None empty_store
     = (Inl (GenericError (UnableToDelete ''Subscription Plan'')), empty_store)"
    by (simp add: delete_def delete_try_def rejecting_def)
  have f5: "create rejecting mem_db ann empty_store
     = (Inl (GenericError (Duplicate ''User'')), empty_store)"
    by (simp add: create_def create_try_def rejecting_def)
  from errors_name_Subscription_Plan
         [of rejecting mem_db None empty_store
             "GenericError (NotFound ''Subscription Plan'')" empty_store
             "GenericError (NotFound ''Subscription Plan'')" empty_store
             no_unicode "\<lparr>up_name = ''Pro Plan''\<rparr>"
             "GenericError (Duplicate ''Subscription Plan'')" empty_store
             "GenericError (UnableToDelete ''Subscription Plan'')" empty_store
             ann "GenericError (Duplicate ''User'')" empty_store]
       f1 f2 f3 f4 f5
  show ?thesis by simp
qed


text \<open>
  C3. For a valid create payload whose email is not yet present (the pre-insert
  \<^verbatim>\<open>findOne\<close> finds nothing), \<^verbatim>\<open>create\<close> returns the inserted entity when that entity
  carries a non-empty id; when the inserted record comes back without a non-empty id,
  \<^verbatim>\<open>create\<close> fails with BadRequest(UnableSave) instead of returning.
\<close>

theorem create_returns_inserted_entity:
  assumes "UserCreateSchema schemas payload = []"
    and "findOne_User db (no_Users\<lparr>u_email := Some (in_email payload)\<rparr>) s = (Inr None, s1)"
    and "create_User db (new_Users payload (generate_hashed_password (in_raw_password payload))) s1
           = (Inr result, s2)"
  shows "((\<exists>i. u_id result = Some i \<and> i \<noteq> []) \<longrightarrow>
            create schemas db payload s = (Inr result, s2)) \<and>
         (\<not> (\<exists>i. u_id result = Some i \<and> i \<noteq> []) \<longrightarrow>
            create schemas db payload s = (Inl (BadRequestError (UnableSave ''User'')), s2))"
proof -
  have tr: "create_try schemas db payload s = (Inr result, s2)"
    using assms by (simp add: create_try_def)
  have "isEmpty_string (u_id result) \<longleftrightarrow> \<not> (\<exists>i. u_id result = Some i \<and> i \<noteq> [])"
    by (cases "u_id result") auto
  with tr show ?thesis by (simp add: create_def)
qed

lemma mem_db_findOne_User_empty: "findOne_User mem_db q empty_store = (Inr None, empty_store)"
  by (simp add: mem_db_def empty_store_def)

lemma idless_db_findOne_User_empty: "findOne_User idless_db q empty_store = (Inr None, empty_store)"
  by (simp add: idless_db_def mem_db_def empty_store_def)

lemma new_Users_ann:
  "new_Users ann (generate_hashed_password (in_raw_password ann)) = ann_stored\<lparr>u_id := None\<rparr>"
  by (simp add: new_Users_def ann_def ann_stored_def generate_hashed_password_def)

lemma mem_db_create_ann:
  "create_User mem_db (ann_stored\<lparr>u_id := None\<rparr>) empty_store
     = (Inr ann_stored, \<lparr>mem_users = [ann_stored], mem_plans = []\<rparr>)"
  by (simp add: mem_db_def empty_store_def ann_stored_def Let_def)

lemma idless_db_create_ann:
  "create_User idless_db (ann_stored\<lparr>u_id := None\<rparr>) empty_store
     = (Inr (ann_stored\<lparr>u_id := None\<rparr>),
        \<lparr>mem_users = [ann_stored\<lparr>u_id := None\<rparr>], mem_plans = []\<rparr>)"
  by (simp add: idless_db_def empty_store_def)

theorem create_returns_inserted_entity_witness:
  "create accepting mem_db ann empty_store
     = (Inr ann_stored, \<lparr>mem_users = [ann_stored], mem_plans = []\<rparr>) \<and>
   u_id ann_stored = Some ''u'' \<and>
   create accepting idless_db ann empty_store
     = (Inl (BadRequestError (UnableSave ''User'')),
        \<lparr>mem_users = [ann_stored\<lparr>u_id := None\<rparr>], mem_plans = []\<rparr>)"
proof -
  have v: "UserCreateSchema accepting ann = []"
    by (simp add: accepting_def)
  have a: "create_User mem_db (new_Users ann (generate_hashed_password (in_raw_password ann)))
             empty_store = (Inr ann_stored, \<lparr>mem_users = [ann_stored], mem_plans = []\<rparr>)"
    by (simp only: new_Users_ann mem_db_create_ann)
  have b: "create_User idless_db (new_Users ann (generate_hashed_password (in_raw_password ann)))
             empty_store = (Inr (ann_stored\<lparr>u_id := None\<rparr>),
               \<lparr>mem_users = [ann_stored\<lparr>u_id := None\<rparr>], mem_plans = []\<rparr>)"
    by (simp only: new_Users_ann idless_db_create_ann)
  have i: "u_id ann_stored = Some ''u''" "u_id (ann_stored\<lparr>u_id := None\<rparr>) = None"
    by (simp_all add: ann_stored_def)
  from create_returns_inserted_entity [OF v mem_db_findOne_User_empty a]
       create_returns_inserted_entity [OF v idless_db_findOne_User_empty b] i
  show ?thesis by simp
qed

text \<open>
  C4. For a create payload whose email already belongs to a record found by the
  pre-insert \<^verbatim>\<open>findOne\<close> query, \<^verbatim>\<open>create\<close> fails with a Conflict error carrying the
  Duplicate('User') message and inserts nothing: the outcome, and the database state left
  behind (the one the query left), are the same whatever the insert operation of the
  database service is, so it is never run.
\<close>

theorem create_duplicate_email_Conflict:
  assumes "UserCreateSchema schemas payload = []"
    and "findOne_User db (no_Users\<lparr>u_email := Some (in_email payload)\<rparr>) s
           = (Inr (Some isExist), s1)"
  shows "create schemas (db\<lparr>create_User := insert'\<rparr>) payload s
           = (Inl (ConflictError (Duplicate ''User'')), s1)"
  using assms by (simp add: create_def create_try_def)

lemma mem_db_findOne_ann:
  "findOne_User mem_db (no_Users\<lparr>u_email := Some (in_email ann)\<rparr>) ann_store
     = (Inr (Some ann_stored), ann_store)"
  by (simp add: mem_db_def ann_store_def ann_stored_def ann_def no_Users_def
        matches_User_def field_matches_def)

theorem create_duplicate_email_Conflict_witness:
  "UserCreateSchema accepting ann = [] \<and>
   findOne_User mem_db (no_Users\<lparr>u_email := Some (in_email ann)\<rparr>) ann_store
     = (Inr (Some ann_stored), ann_store) \<and>
   create accepting mem_db ann ann_store
     = (Inl (ConflictError (Duplicate ''User'')), ann_store)"
proof -
  have v: "UserCreateSchema accepting ann = []"
    by (simp add: accepting_def)
  have "mem_db\<lparr>create_User := create_User mem_db\<rparr> = mem_db"
    by simp
  with create_duplicate_email_Conflict [OF v mem_db_findOne_ann, of "create_User mem_db"]
       v mem_db_findOne_ann
  show ?thesis by simp
qed


text \<open>
  C5. For an update call with \<^verbatim>\<open>filter.id\<close> present (and the merged input accepted), the
  slug is the lower-cased \<^verbatim>\<open>payload.name\<close> with its first space replaced by a hyphen:
  on an ASCII name every letter \<^verbatim>\<open>A\<close> to \<^verbatim>\<open>Z\<close> becomes its small letter, on any other
  name the case mapping of the runtime applies. The update fails with Conflict(Duplicate) if
  and only if the database's \<^verbatim>\<open>findOne\<close> for that slug answers with a record whose id
  differs from \<^verbatim>\<open>filter.id\<close>; when it answers with the target record itself and the database
  reports modified rows, the update succeeds.
\<close>

theorem update_slug_conflict:
  assumes "subscriptionPlanUpdateSchema schemas payload (Some w) = []"
    and "f_id w = Some id'"
    and "lower =
           (if list_all (\<lambda>c. (of_char c :: nat) < 128) (up_name payload)
            then map (\<lambda>c. case map_of (zip ''ABCDEFGHIJKLMNOPQRSTUVWXYZ''
                                             ''abcdefghijklmnopqrstuvwxyz'') c of
                             None \<Rightarrow> c | Some l \<Rightarrow> l) (up_name payload)
            else unicode (up_name payload))"
    and "slug =
           (if CHR '' '' \<in> set lower
            then takeWhile (\<lambda>c. c \<noteq> CHR '' '') lower @ ''-'' @
                 tl (dropWhile (\<lambda>c. c \<noteq> CHR '' '') lower)
            else lower)"
  shows "(fst (update schemas unicode db payload (Some w) s)
            = Inl (ConflictError (Duplicate ''Subscription Plan''))
          \<longleftrightarrow> (\<exists>ex s1. findOne_Plan db (new_SubscriptionPlans\<lparr>p_slug := Some slug\<rparr>) s
                          = (Inr (Some ex), s1) \<and> p_id ex \<noteq> Some id')) \<and>
         (\<forall>ex s1 edges modified s2.
            findOne_Plan db (new_SubscriptionPlans\<lparr>p_slug := Some slug\<rparr>) s
              = (Inr (Some ex), s1) \<and>
            p_id ex = Some id' \<and>
            update_Plan db \<lparr>p_id = None, p_name = Some (up_name payload), p_slug = Some slug\<rparr>
              (new_SubscriptionPlans\<lparr>p_id := Some id'\<rparr>) s1 = (Inr (edges, modified), s2) \<and>
            modified > 0
            \<longrightarrow> update schemas unicode db payload (Some w) s
                  = (Inr \<lparr>m_modified = modified, m_edges = edges\<rparr>, s2))"
proof (intro conjI)
  have l: "toLowerCase unicode (up_name payload) = lower"
    using assms(3) by (simp only: toLowerCase_table)
  have q: "replace (toLowerCase unicode (up_name payload)) CHR '' '' ''-'' = slug"
    using assms(4) by (simp only: l replace_first_only)
  obtain res s1 where f:
    "findOne_Plan db (new_SubscriptionPlans\<lparr>p_slug := Some slug\<rparr>) s = (res, s1)"
    by (cases "findOne_Plan db (new_SubscriptionPlans\<lparr>p_slug := Some slug\<rparr>) s") blast
  show "fst (update schemas unicode db payload (Some w) s)
            = Inl (ConflictError (Duplicate ''Subscription Plan''))
          \<longleftrightarrow> (\<exists>ex s1. findOne_Plan db (new_SubscriptionPlans\<lparr>p_slug := Some slug\<rparr>) s
                          = (Inr (Some ex), s1) \<and> p_id ex \<noteq> Some id')"
  proof (cases "\<exists>ex. res = Inr (Some ex) \<and> p_id ex \<noteq> Some id'")
    case True
    then have "update_try schemas unicode db payload (Some w) s
                 = (Inl (Classified (ConflictError (Duplicate ''Subscription Plan''))), s1)"
      using assms(1,2) q f by (auto simp: update_try_def Let_def)
    with True f show ?thesis by (auto simp: update_def)
  next
    case False
    have "fst (update schemas unicode db payload (Some w) s)
            \<noteq> Inl (ConflictError (Duplicate ''Subscription Plan''))"
    proof (cases res)
      case (Inl d)
      with assms(1,2) q f show ?thesis
        by (simp add: update_def update_try_def Let_def)
    next
      case (Inr found)
      with False have c: "\<not> (case found of None \<Rightarrow> False | Some ex \<Rightarrow> p_id ex \<noteq> Some id')"
        by (cases found) auto
      from assms(1,2) q f Inr c show ?thesis
        by (auto simp: update_def update_try_def Let_def modified_or_NotFound_def
                 split: prod.splits sum.splits)
    qed
    with False f show ?thesis by auto
  qed
  show "\<forall>ex s1 edges modified s2.
            findOne_Plan db (new_SubscriptionPlans\<lparr>p_slug := Some slug\<rparr>) s
              = (Inr (Some ex), s1) \<and>
            p_id ex = Some id' \<and>
            update_Plan db \<lparr>p_id = None, p_name = Some (up_name payload), p_slug = Some slug\<rparr>
              (new_SubscriptionPlans\<lparr>p_id := Some id'\<rparr>) s1 = (Inr (edges, modified), s2) \<and>
            modified > 0
            \<longrightarrow> update schemas unicode db payload (Some w) s
                  = (Inr \<lparr>m_modified = modified, m_edges = edges\<rparr>, s2)"
    using assms(1,2) q
    by (auto simp: update_def update_try_def Let_def modified_or_NotFound_def)
qed

lemma lower_Pro_Plan:
  "''pro plan'' =
     (if list_all (\<lambda>c. (of_char c :: nat) < 128) ''Pro Plan''
      then map (\<lambda>c. case map_of (zip ''ABCDEFGHIJKLMNOPQRSTUVWXYZ''
                                       ''abcdefghijklmnopqrstuvwxyz'') c of
                       None \<Rightarrow> c | Some l \<Rightarrow> l) ''Pro Plan''
      else no_unicode ''Pro Plan'')"
  by simp

lemma hyphen_pro_plan:
  "''pro-plan'' =
     (if CHR '' '' \<in> set ''pro plan''
      then takeWhile (\<lambda>c. c \<noteq> CHR '' '') ''pro plan'' @ ''-'' @
           tl (dropWhile (\<lambda>c. c \<noteq> CHR '' '') ''pro plan'')
      else ''pro plan'')"
  by simp

lemma slug_Pro_Plan:
  "replace (toLowerCase no_unicode ''Pro Plan'') CHR '' '' ''-'' = ''pro-plan''"
  by code_simp

lemma mem_db_findOne_pro_plan:
  "findOne_Plan mem_db (new_SubscriptionPlans\<lparr>p_slug := Some ''pro-plan''\<rparr>) two_plans
     = (Inr (Some pro_plan), two_plans)"
  by (simp add: mem_db_def two_plans_def pro_plan_def new_SubscriptionPlans_def
        matches_Plan_def field_matches_def)

lemma mem_db_update_pro_plan:
  "update_Plan mem_db \<lparr>p_id = None, p_name = Some ''Pro Plan'', p_slug = Some ''pro-plan''\<rparr>
     (new_SubscriptionPlans\<lparr>p_id := Some ''1''\<rparr>) two_plans
     = (Inr ([pro_plan], 1), two_plans)"
  by (simp add: mem_db_def two_plans_def pro_plan_def basic_plan_def new_SubscriptionPlans_def
        matches_Plan_def field_matches_def patch_Plan_def Let_def)

theorem update_slug_conflict_witness:
  "findOne_Plan mem_db (new_SubscriptionPlans\<lparr>p_slug := Some ''pro-plan''\<rparr>) two_plans
     = (Inr (Some pro_plan), two_plans) \<and>
   p_id pro_plan = Some ''1'' \<and>
   fst (update accepting no_unicode mem_db \<lparr>up_name = ''Pro Plan''\<rparr>
          (Some \<lparr>f_id = Some ''2'', f_limit = None, f_skip = None\<rparr>) two_plans)
     = Inl (ConflictError (Duplicate ''Subscription Plan'')) \<and>
   update accepting no_unicode mem_db \<lparr>up_name = ''Pro Plan''\<rparr>
     (Some \<lparr>f_id = Some ''1'', f_limit = None, f_skip = None\<rparr>) two_plans
     = (Inr \<lparr>m_modified = 1, m_edges = [pro_plan]\<rparr>, two_plans)"
proof -
  have v: "subscriptionPlanUpdateSchema accepting \<lparr>up_name = ''Pro Plan''\<rparr> (Some w) = []" for w
    by (simp add: accepting_def)
  have n: "''pro plan'' =
     (if list_all (\<lambda>c. (of_char c :: nat) < 128) (up_name \<lparr>up_name = ''Pro Plan''\<rparr>)
      then map (\<lambda>c. case map_of (zip ''ABCDEFGHIJKLMNOPQRSTUVWXYZ''
                                       ''abcdefghijklmnopqrstuvwxyz'') c of
                       None \<Rightarrow> c | Some l \<Rightarrow> l) (up_name \<lparr>up_name = ''Pro Plan''\<rparr>)
      else no_unicode (up_name \<lparr>up_name = ''Pro Plan''\<rparr>))"
    using lower_Pro_Plan by simp
  have i: "p_id pro_plan = Some ''1''"
    by (simp add: pro_plan_def)
  have i2: "f_id \<lparr>f_id = Some ''2'', f_limit = None, f_skip = None\<rparr> = Some ''2''"
    and i1: "f_id \<lparr>f_id = Some ''1'', f_limit = None, f_skip = None\<rparr> = Some ''1''"
    by simp_all
  note other = update_slug_conflict
           [where unicode = no_unicode
             and payload = "\<lparr>up_name = ''Pro Plan''\<rparr>" and lower = "''pro plan''"
             and slug = "''pro-plan''" and db = mem_db and s = two_plans,
           OF v i2 n hyphen_pro_plan]
  note own = update_slug_conflict
           [where unicode = no_unicode
             and payload = "\<lparr>up_name = ''Pro Plan''\<rparr>" and lower = "''pro plan''"
             and slug = "''pro-plan''" and db = mem_db and s = two_plans,
           OF v i1 n hyphen_pro_plan]
  from other i mem_db_findOne_pro_plan
  have c: "fst (update accepting no_unicode mem_db \<lparr>up_name = ''Pro Plan''\<rparr>
          (Some \<lparr>f_id = Some ''2'', f_limit = None, f_skip = None\<rparr>) two_plans)
     = Inl (ConflictError (Duplicate ''Subscription Plan''))"
    by simp
  from own i mem_db_findOne_pro_plan mem_db_update_pro_plan
  have u: "update accepting no_unicode mem_db \<lparr>up_name = ''Pro Plan''\<rparr>
     (Some \<lparr>f_id = Some ''1'', f_limit = None, f_skip = None\<rparr>) two_plans
     = (Inr \<lparr>m_modified = 1, m_edges = [pro_plan]\<rparr>, two_plans)"
    by simp
  from mem_db_findOne_pro_plan i c u show ?thesis by simp
qed

text \<open>
  The claim as first stated lets the conflict depend on whether some existing record has
  the slug and another id. In a store where two plans share the slug \<^verbatim>\<open>pro-plan\<close>, updating
  the first one to the name \<^verbatim>\<open>Pro Plan\<close> succeeds, although the second has that slug and
  a different id: the lookup answers with one record only.
\<close>

lemma mem_db_findOne_twin:
  "findOne_Plan mem_db (new_SubscriptionPlans\<lparr>p_slug := Some ''pro-plan''\<rparr>) twin_plans
     = (Inr (Some pro_plan), twin_plans)"
  by (simp add: mem_db_def twin_plans_def pro_plan_def new_SubscriptionPlans_def
        matches_Plan_def field_matches_def)

lemma mem_db_update_twin:
  "update_Plan mem_db \<lparr>p_id = None, p_name = Some ''Pro Plan'', p_slug = Some ''pro-plan''\<rparr>
     (new_SubscriptionPlans\<lparr>p_id := Some ''1''\<rparr>) twin_plans
     = (Inr ([pro_plan], 1), twin_plans)"
  by (simp add: mem_db_def twin_plans_def pro_plan_def pro_twin_def new_SubscriptionPlans_def
        matches_Plan_def field_matches_def patch_Plan_def Let_def)

theorem update_slug_conflict_counterexample:
  "update accepting no_unicode mem_db \<lparr>up_name = ''Pro Plan''\<rparr>
     (Some \<lparr>f_id = Some ''1'', f_limit = None, f_skip = None\<rparr>) twin_plans
     = (Inr \<lparr>m_modified = 1, m_edges = [pro_plan]\<rparr>, twin_plans) \<and>
   replace (toLowerCase no_unicode ''Pro Plan'') CHR '' '' ''-'' = ''pro-plan'' \<and>
   pro_twin \<in> set (mem_plans twin_plans) \<and>
   p_slug pro_twin = Some ''pro-plan'' \<and>
   p_id pro_twin \<noteq> Some ''1''"
proof -
  have "p_id pro_plan = Some ''1''"
    by (simp add: pro_plan_def)
  then have "update accepting no_unicode mem_db \<lparr>up_name = ''Pro Plan''\<rparr>
     (Some \<lparr>f_id = Some ''1'', f_limit = None, f_skip = None\<rparr>) twin_plans
     = (Inr \<lparr>m_modified = 1, m_edges = [pro_plan]\<rparr>, twin_plans)"
    by (simp add: update_def update_try_def accepting_def slug_Pro_Plan
          mem_db_findOne_twin mem_db_update_twin modified_or_NotFound_def)
  then show ?thesis
    by (simp add: slug_Pro_Plan twin_plans_def pro_twin_def)
qed







text \<open>
  C7. \<^verbatim>\<open>findOne\<close> resolves the record by id only. With the filter accepted: when the id is
  present and the database finds a (non-empty) record for the query \<^verbatim>\<open>{ id }\<close>, that record
  is returned; when the filter or its id is absent, or no record matches, the call fails
  with NotFound. Whatever the inputs, a returned record is never empty and is the
  database's answer for the id alone, and every failure carries the NotFound message.
\<close>

theorem findOne_by_id_or_NotFound:
  "(subscriptionPlanFilterSchema schemas (Some w) = [] \<and> f_id w = Some id' \<and>
    findOne_Plan db (new_SubscriptionPlans\<lparr>p_id := Some id'\<rparr>) s = (Inr (Some edge), s1) \<and>
    \<not> isEmpty_Plan edge
      \<longrightarrow> findOne schemas db (Some w) s = (Inr edge, s1)) \<and>
   (subscriptionPlanFilterSchema schemas where' = [] \<and>
    (\<forall>w'. where' = Some w' \<longrightarrow> f_id w' = None)
      \<longrightarrow> findOne schemas db where' s
            = (Inl (NotFoundError (NotFound ''Subscription Plan'')), s)) \<and>
   (subscriptionPlanFilterSchema schemas (Some w) = [] \<and> f_id w = Some id' \<and>
    findOne_Plan db (new_SubscriptionPlans\<lparr>p_id := Some id'\<rparr>) s = (Inr None, s2)
      \<longrightarrow> findOne schemas db (Some w) s
            = (Inl (NotFoundError (NotFound ''Subscription Plan'')), s2)) \<and>
   (findOne schemas db where'' s = (Inr found, s3)
      \<longrightarrow> \<not> isEmpty_Plan found \<and>
          (\<exists>w' i. where'' = Some w' \<and> f_id w' = Some i \<and>
             findOne_Plan db (new_SubscriptionPlans\<lparr>p_id := Some i\<rparr>) s
               = (Inr (Some found), s3))) \<and>
   (findOne schemas db where'' s = (Inl e, s4)
      \<longrightarrow> message_of e = NotFound ''Subscription Plan'')"
proof (intro conjI impI)
  assume "subscriptionPlanFilterSchema schemas (Some w) = [] \<and> f_id w = Some id' \<and>
    findOne_Plan db (new_SubscriptionPlans\<lparr>p_id := Some id'\<rparr>) s = (Inr (Some edge), s1) \<and>
    \<not> isEmpty_Plan edge"
  then show "findOne schemas db (Some w) s = (Inr edge, s1)"
    by (simp add: findOne_def findOne_try_def)
next
  assume "subscriptionPlanFilterSchema schemas where' = [] \<and>
    (\<forall>w'. where' = Some w' \<longrightarrow> f_id w' = None)"
  then show "findOne schemas db where' s
            = (Inl (NotFoundError (NotFound ''Subscription Plan'')), s)"
    by (cases where') (simp_all add: findOne_def findOne_try_def)
next
  assume "subscriptionPlanFilterSchema schemas (Some w) = [] \<and> f_id w = Some id' \<and>
    findOne_Plan db (new_SubscriptionPlans\<lparr>p_id := Some id'\<rparr>) s = (Inr None, s2)"
  then show "findOne schemas db (Some w) s
            = (Inl (NotFoundError (NotFound ''Subscription Plan'')), s2)"
    by (simp add: findOne_def findOne_try_def)
next
  assume a: "findOne schemas db where'' s = (Inr found, s3)"
  then show "\<not> isEmpty_Plan found"
    by (auto simp: findOne_def split: prod.splits sum.splits option.splits if_splits)
  from a have "findOne_try schemas db where'' s = (Inr (Some found), s3)"
    by (auto simp: findOne_def split: prod.splits sum.splits option.splits if_splits)
  then show "\<exists>w' i. where'' = Some w' \<and> f_id w' = Some i \<and>
             findOne_Plan db (new_SubscriptionPlans\<lparr>p_id := Some i\<rparr>) s
               = (Inr (Some found), s3)"
    by (auto simp: findOne_try_def split: list.splits prod.splits sum.splits option.splits)
next
  assume "findOne schemas db where'' s = (Inl e, s4)"
  then show "message_of e = NotFound ''Subscription Plan''"
    by (rule findOne_error_message)
qed

lemma mem_db_findOne_id:
  "findOne_Plan mem_db (new_SubscriptionPlans\<lparr>p_id := Some ''2''\<rparr>) two_plans
     = (Inr (Some basic_plan), two_plans)"
  "findOne_Plan mem_db (new_SubscriptionPlans\<lparr>p_id := Some ''3''\<rparr>) two_plans
     = (Inr None, two_plans)"
  by (simp_all add: mem_db_def two_plans_def pro_plan_def basic_plan_def
        new_SubscriptionPlans_def matches_Plan_def field_matches_def)

theorem findOne_by_id_or_NotFound_witness:
  "findOne accepting mem_db (Some \<lparr>f_id = Some ''2'', f_limit = None, f_skip = None\<rparr>) two_plans
     = (Inr basic_plan, two_plans) \<and>
   \<not> isEmpty_Plan basic_plan \<and>
   findOne accepting mem_db (Some \<lparr>f_id = None, f_limit = Some 5, f_skip = Some 0\<rparr>) two_plans
     = (Inl (NotFoundError (NotFound ''Subscription Plan'')), two_plans) \<and>
   findOne accepting mem_db (Some \<lparr>f_id = Some ''3'', f_limit = None, f_skip = None\<rparr>) two_plans
     = (Inl (NotFoundError (NotFound ''Subscription Plan'')), two_plans) \<and>
   message_of (NotFoundError (NotFound ''Subscription Plan'')) = NotFound ''Subscription Plan''"
proof -
  have v: "subscriptionPlanFilterSchema accepting x = []" for x
    by (simp add: accepting_def)
  have e: "\<not> isEmpty_Plan basic_plan"
    by (simp add: isEmpty_Plan_def basic_plan_def)
  note t = findOne_by_id_or_NotFound [where schemas = accepting and db = mem_db
             and s = two_plans]
  from t [where w = "\<lparr>f_id = Some ''2'', f_limit = None, f_skip = None\<rparr>" and id' = "''2''"
            and edge = basic_plan and ?s1.0 = two_plans] v e mem_db_findOne_id(1)
  have a: "findOne accepting mem_db
             (Some \<lparr>f_id = Some ''2'', f_limit = None, f_skip = None\<rparr>) two_plans
           = (Inr basic_plan, two_plans)"
    by simp
  from t [where where' = "Some \<lparr>f_id = None, f_limit = Some 5, f_skip = Some 0\<rparr>"] v
  have b: "findOne accepting mem_db
             (Some \<lparr>f_id = None, f_limit = Some 5, f_skip = Some 0\<rparr>) two_plans
           = (Inl (NotFoundError (NotFound ''Subscription Plan'')), two_plans)"
    by simp
  from t [where w = "\<lparr>f_id = Some ''3'', f_limit = None, f_skip = None\<rparr>" and id' = "''3''"
            and ?s2.0 = two_plans] v mem_db_findOne_id(2)
  have c: "findOne accepting mem_db
             (Some \<lparr>f_id = Some ''3'', f_limit = None, f_skip = None\<rparr>) two_plans
           = (Inl (NotFoundError (NotFound ''Subscription Plan'')), two_plans)"
    by simp
  from t [where where'' = "Some \<lparr>f_id = Some ''2'', f_limit = None, f_skip = None\<rparr>"
            and found = basic_plan and ?s3.0 = two_plans] a
  have d: "\<not> isEmpty_Plan basic_plan"
    by simp
  from t [where where'' = "Some \<lparr>f_id = Some ''3'', f_limit = None, f_skip = None\<rparr>"
            and e = "NotFoundError (NotFound ''Subscription Plan'')" and ?s4.0 = two_plans] c
  have m: "message_of (NotFoundError (NotFound ''Subscription Plan''))
             = NotFound ''Subscription Plan''"
    by simp
  from a b c d m show ?thesis by simp
qed















text \<open>
  C9. For every raw password, \<^verbatim>\<open>Users.generate_hashed_password\<close> yields a string that
  differs from it. The record \<^verbatim>\<open>create\<close> hands to the database carries that string as
  \<^verbatim>\<open>hashed_password\<close>; so, the database storing the field as it was given, the
  \<^verbatim>\<open>hashed_password\<close> of a successfully created user never equals the \<^verbatim>\<open>raw_password\<close> of
  the payload.
\<close>

theorem hashed_password_differs_from_raw:
  assumes "\<And>u s0 r0 s0'. create_User db u s0 = (Inr r0, s0')
             \<Longrightarrow> u_hashed_password r0 = u_hashed_password u"
    and "create schemas db payload s = (Inr created, s')"
  shows "(\<forall>raw. generate_hashed_password raw \<noteq> raw) \<and>
         u_hashed_password created = Some (generate_hashed_password (in_raw_password payload)) \<and>
         u_hashed_password created \<noteq> Some (in_raw_password payload)"
proof -
  have g: "generate_hashed_password raw \<noteq> raw" for raw
    by (simp add: generate_hashed_password_def)
  from assms(2) have "create_try schemas db payload s = (Inr created, s')"
    by (auto simp: create_def split: prod.splits sum.splits if_splits)
  from create_try_Inr [OF this] obtain s1 where
    "create_User db (new_Users payload (generate_hashed_password (in_raw_password payload))) s1
       = (Inr created, s')"
    by blast
  from assms(1) [OF this]
  have h: "u_hashed_password created
             = Some (generate_hashed_password (in_raw_password payload))"
    by (simp add: new_Users_def)
  from g h show ?thesis by simp
qed

lemma create_ann:
  "create accepting mem_db ann empty_store
     = (Inr ann_stored, \<lparr>mem_users = [ann_stored], mem_plans = []\<rparr>)"
proof -
  have "u_id ann_stored = Some ''u''"
    by (simp add: ann_stored_def)
  then show ?thesis
    by (simp add: create_def create_try_def accepting_def mem_db_findOne_User_empty
          new_Users_ann mem_db_create_ann)
qed

theorem hashed_password_differs_from_raw_witness:
  "create accepting mem_db ann empty_store
     = (Inr ann_stored, \<lparr>mem_users = [ann_stored], mem_plans = []\<rparr>) \<and>
   in_raw_password ann = ''secret1'' \<and>
   u_hashed_password ann_stored = Some ''!secret1'' \<and>
   u_hashed_password ann_stored \<noteq> Some ''secret1''"
proof -
  have st: "u_hashed_password r0 = u_hashed_password u"
    if "create_User mem_db u s0 = (Inr r0, s0')" for u s0 r0 s0'
    using that by (auto simp: mem_db_def Let_def)
  have p: "in_raw_password ann = ''secret1''"
    by (simp add: ann_def)
  from hashed_password_differs_from_raw [of mem_db accepting ann empty_store ann_stored
         "\<lparr>mem_users = [ann_stored], mem_plans = []\<rparr>", OF st create_ann]
       create_ann p
  show ?thesis by (simp add: generate_hashed_password_def)
qed

text \<open>
  C10. \<^verbatim>\<open>Users.password\<close> is the identity on strings; composed with the hash stub it gives
  \<^verbatim>\<open>'!' + p\<close>, which never equals \<^verbatim>\<open>p\<close>: the pair is not a decode/encode round trip.
\<close>

theorem password_identity_no_roundtrip:
  "password h = h \<and>
   password (generate_hashed_password p) = CHR ''!'' # p \<and>
   password (generate_hashed_password p) \<noteq> p"
proof -
  have i: "password x = x" for x
    by (simp add: password_def slice_whole)
  show ?thesis
    by (simp add: i generate_hashed_password_def)
qed

end
